theory Spec2Isabelle
  imports Main "HOL-Library.Multiset"
begin

section \<open>Data model\<close>

text \<open>
  The bot of \<^verbatim>\<open>index.js\<close> keeps its pending reminders in the file
  \<^verbatim>\<open>./reminders.json\<close> as a JSON array of objects with the six fields below.
  A JavaScript \<^verbatim>\<open>Date\<close> is its time value, the number of milliseconds since the epoch;
  the ISO-8601 text that \<^verbatim>\<open>toISOString\<close> writes and \<^verbatim>\<open>new Date(text)\<close> reads back
  is identified with that number. Invalid dates (\<^verbatim>\<open>NaN\<close>) are outside the model.
\<close>

type_synonym instant = int

record reminder =
  id_of :: string
  chatId :: string
  reminderMessage :: string
  remindAt :: instant
  originalSubject :: string
  originalDate :: instant

text \<open>
  The text of the file is identified with what \<^verbatim>\<open>JSON.parse\<close> makes of it: text that
  cannot be read or parsed, the array of reminders it denotes, or valid JSON that is not
  an array, of which only the kind matters (\<^verbatim>\<open>null\<close>, a string, an object, a number or a
  boolean). Arrays whose elements are not reminder objects are outside the model.
\<close>

datatype non_array = JNull | JString | JObject | JNumber | JBoolean

datatype json_text = Garbage | Array "reminder list" | NonArray non_array

text \<open>The value that \<^verbatim>\<open>JSON.parse\<close> returns and \<^verbatim>\<open>loadReminders\<close> hands to its callers.\<close>

datatype js_value = ArrayValue "reminder list" | OtherValue non_array

datatype exn = SyntaxError | IOError | ENOENT | SendError | ChronoError | TypeError

text \<open>
  \<^verbatim>\<open>fs.writeFileSync\<close> opens the file with flag \<^verbatim>\<open>w\<close>, which truncates it, and then
  writes. It can throw before the file is opened (the file keeps its content) or after
  (the file is left cut short, which no longer parses). What each call does is the
  environment's choice, given as a script consumed one call at a time; once the script
  is used up, writes succeed.
\<close>

datatype write_outcome = Written | OpenFailed | WriteFailed

record disk =
  content :: "json_text option"
  faults :: "write_outcome list"

section \<open>File system and JSON primitives\<close>

definition existsSync :: "disk \<Rightarrow> bool" where
  "existsSync d = (content d \<noteq> None)"

definition readFileSync :: "disk \<Rightarrow> exn + json_text" where
  "readFileSync d = (case content d of None \<Rightarrow> Inl ENOENT | Some t \<Rightarrow> Inr t)"

definition writeFileSync :: "json_text \<Rightarrow> disk \<Rightarrow> (exn + unit) \<times> disk" where
  "writeFileSync data d =
     (case faults d of
        [] \<Rightarrow> (Inr (), d\<lparr>content := Some data\<rparr>)
      | Written # fs \<Rightarrow> (Inr (), d\<lparr>content := Some data, faults := fs\<rparr>)
      | OpenFailed # fs \<Rightarrow> (Inl IOError, d\<lparr>faults := fs\<rparr>)
      | WriteFailed # fs \<Rightarrow> (Inl IOError, d\<lparr>content := Some Garbage, faults := fs\<rparr>))"

definition JSON_parse :: "json_text \<Rightarrow> exn + js_value" where
  "JSON_parse t =
     (case t of
        Garbage \<Rightarrow> Inl SyntaxError
      | Array rs \<Rightarrow> Inr (ArrayValue rs)
      | NonArray k \<Rightarrow> Inr (OtherValue k))"

definition JSON_stringify :: "reminder list \<Rightarrow> json_text" where
  "JSON_stringify rs = Array rs"

text \<open>
  \<^verbatim>\<open>reminders.filter(p)\<close> and \<^verbatim>\<open>reminders.push(x)\<close>: on \<^verbatim>\<open>null\<close> the property access
  throws, on any other value that is not an array the property is \<^verbatim>\<open>undefined\<close> and the
  call throws; both are a \<^verbatim>\<open>TypeError\<close>.
\<close>

definition js_filter :: "(reminder \<Rightarrow> bool) \<Rightarrow> js_value \<Rightarrow> exn + reminder list" where
  "js_filter p v = (case v of ArrayValue rs \<Rightarrow> Inr (filter p rs) | OtherValue k \<Rightarrow> Inl TypeError)"

definition js_push :: "js_value \<Rightarrow> reminder \<Rightarrow> exn + reminder list" where
  "js_push v x = (case v of ArrayValue rs \<Rightarrow> Inr (rs @ [x]) | OtherValue k \<Rightarrow> Inl TypeError)"

section \<open>The store: loadReminders, saveReminders, removeReminder\<close>

text \<open>The body of the \<^verbatim>\<open>try\<close> block of \<^verbatim>\<open>loadReminders\<close>; an exception leaves it as \<open>Inl\<close>.\<close>

definition loadReminders_try :: "disk \<Rightarrow> (exn + js_value) \<times> disk" where
  "loadReminders_try d =
     (if \<not> existsSync d then
        (case writeFileSync (Array []) d of
           (Inl e, d') \<Rightarrow> (Inl e, d')
         | (Inr u, d') \<Rightarrow> (Inr (ArrayValue []), d'))
      else
        (case readFileSync d of
           Inl e \<Rightarrow> (Inl e, d)
         | Inr data \<Rightarrow> (JSON_parse data, d)))"

text \<open>
  The \<^verbatim>\<open>catch\<close> logs the error and returns the empty array. What \<^verbatim>\<open>JSON.parse\<close> returns
  is returned unchecked.
\<close>

definition loadReminders :: "disk \<Rightarrow> (exn + js_value) \<times> disk" where
  "loadReminders d =
     (case loadReminders_try d of
        (Inl err, d') \<Rightarrow> (Inr (ArrayValue []), d')
      | (Inr v, d') \<Rightarrow> (Inr v, d'))"

definition saveReminders_try :: "reminder list \<Rightarrow> disk \<Rightarrow> (exn + unit) \<times> disk" where
  "saveReminders_try reminders d = writeFileSync (JSON_stringify reminders) d"

definition saveReminders :: "reminder list \<Rightarrow> disk \<Rightarrow> (exn + unit) \<times> disk" where
  "saveReminders reminders d =
     (case saveReminders_try reminders d of
        (Inl err, d') \<Rightarrow> (Inr (), d')
      | (Inr u, d') \<Rightarrow> (Inr (), d'))"

definition removeReminder :: "string \<Rightarrow> disk \<Rightarrow> (exn + unit) \<times> disk" where
  "removeReminder jobId d =
     (case loadReminders d of
        (Inl e, d') \<Rightarrow> (Inl e, d')
      | (Inr reminders, d') \<Rightarrow>
          (case js_filter (\<lambda>r. id_of r \<noteq> jobId) reminders of
             Inl e \<Rightarrow> (Inl e, d')
           | Inr updatedReminders \<Rightarrow> saveReminders updatedReminders d'))"

text \<open>The reminders that the store holds: those of the array in the file, if there is one.\<close>

definition stored :: "disk \<Rightarrow> reminder list" where
  "stored d = (case content d of Some (Array rs) \<Rightarrow> rs | _ \<Rightarrow> [])"

section \<open>The scheduler, the chat gateway and the timer callback\<close>

text \<open>
  A job is what \<^verbatim>\<open>schedule.scheduleJob(jobId, date, callback)\<close> registers: its name, its
  date, and the \<^verbatim>\<open>chatId\<close> and \<^verbatim>\<open>message\<close> that the callback closure captures. The world
  is the file, the registered jobs, the messages \<^verbatim>\<open>client.sendMessage\<close> delivered and the
  replies given with \<^verbatim>\<open>message.reply\<close>.
\<close>

record job =
  jobName :: string
  jobDate :: instant
  jobChat :: string
  jobMessage :: string

record world =
  store :: disk
  jobs :: "job list"
  sent :: "(string \<times> string) list"
  replies :: "string list"

definition digit_char :: "nat \<Rightarrow> char" where
  "digit_char n = ''0123456789'' ! n"

fun show_nat :: "nat \<Rightarrow> string" where
  "show_nat n = (if n < 10 then [digit_char n] else show_nat (n div 10) @ [digit_char (n mod 10)])"

definition show_int :: "int \<Rightarrow> string" where
  "show_int i = (if i < 0 then CHR ''-'' # show_nat (nat (- i)) else show_nat (nat i))"

text \<open>Whether \<^verbatim>\<open>client.sendMessage\<close> delivers or rejects is the gateway's choice.\<close>

definition sendMessage :: "bool \<Rightarrow> string \<Rightarrow> string \<Rightarrow> world \<Rightarrow> (exn + unit) \<times> world" where
  "sendMessage delivered cid message w =
     (if delivered then (Inr (), w\<lparr>sent := sent w @ [(cid, message)]\<rparr>)
      else (Inl SendError, w))"

definition reply :: "string \<Rightarrow> world \<Rightarrow> world" where
  "reply txt w = w\<lparr>replies := replies w @ [txt]\<rparr>"

definition scheduleNewReminder :: "string \<Rightarrow> string \<Rightarrow> instant \<Rightarrow> world \<Rightarrow> string \<times> world" where
  "scheduleNewReminder cid message date w =
     (let jobId = ''reminder_'' @ cid @ ''_'' @ show_int date
      in (jobId,
          w\<lparr>jobs := jobs w @
               [\<lparr>jobName = jobId, jobDate = date, jobChat = cid, jobMessage = message\<rparr>]\<rparr>))"

text \<open>
  The callback of a job: the \<^verbatim>\<open>try\<close> block awaits the send and then removes the reminder;
  a rejected send leaves the block before \<^verbatim>\<open>removeReminder\<close> is reached.
\<close>

definition reminderJob_try :: "bool \<Rightarrow> job \<Rightarrow> world \<Rightarrow> (exn + unit) \<times> world" where
  "reminderJob_try delivered j w =
     (case sendMessage delivered (jobChat j) (jobMessage j) w of
        (Inl e, w') \<Rightarrow> (Inl e, w')
      | (Inr u, w') \<Rightarrow>
          (case removeReminder (jobName j) (store w') of
             (r, d') \<Rightarrow> (r, w'\<lparr>store := d'\<rparr>)))"

definition reminderJob :: "bool \<Rightarrow> job \<Rightarrow> world \<Rightarrow> (exn + unit) \<times> world" where
  "reminderJob delivered j w =
     (case reminderJob_try delivered j w of
        (Inl err, w') \<Rightarrow> (Inr (), w')
      | (Inr u, w') \<Rightarrow> (Inr (), w'))"

section \<open>rescheduleReminders\<close>

text \<open>The \<^verbatim>\<open>for\<close> loop, carrying the world and \<^verbatim>\<open>validReminders\<close>.\<close>

fun reschedule_loop :: "instant \<Rightarrow> reminder list \<Rightarrow> world \<times> reminder list \<Rightarrow> world \<times> reminder list" where
  "reschedule_loop now [] acc = acc"
| "reschedule_loop now (r # rs) (w, validReminders) =
     (if remindAt r > now then
        reschedule_loop now rs
          (snd (scheduleNewReminder (chatId r) (reminderMessage r) (remindAt r) w),
           validReminders @ [r])
      else reschedule_loop now rs (w, validReminders))"

text \<open>
  What \<^verbatim>\<open>reminders.length\<close> and \<^verbatim>\<open>for (const reminder of reminders)\<close> make of the loaded
  value. \<^verbatim>\<open>null.length\<close> throws. An object, a number and a boolean are not iterable. A
  string is iterated character by character; \<^verbatim>\<open>remindAt\<close> of a character is \<^verbatim>\<open>undefined\<close>,
  the date made of it is invalid and no comparison with it holds, so every character is
  skipped: the loop then goes the way it goes on no reminder at all.
\<close>

definition js_iterate :: "js_value \<Rightarrow> exn + reminder list" where
  "js_iterate v =
     (case v of
        ArrayValue rs \<Rightarrow> Inr rs
      | OtherValue k \<Rightarrow> (if k = JString then Inr [] else Inl TypeError))"

definition rescheduleReminders :: "instant \<Rightarrow> world \<Rightarrow> (exn + unit) \<times> world" where
  "rescheduleReminders now w =
     (case loadReminders (store w) of
        (Inl e, d') \<Rightarrow> (Inl e, w\<lparr>store := d'\<rparr>)
      | (Inr reminders, d') \<Rightarrow>
          (case js_iterate reminders of
             Inl e \<Rightarrow> (Inl e, w\<lparr>store := d'\<rparr>)
           | Inr items \<Rightarrow>
               (case reschedule_loop now items (w\<lparr>store := d'\<rparr>, []) of
                  (w', validReminders) \<Rightarrow>
                    (case saveReminders validReminders (store w') of
                       (r, d'') \<Rightarrow> (r, w'\<lparr>store := d''\<rparr>)))))"

section \<open>The Date object (ECMA-262, Date objects)\<close>

text \<open>
  The time-value arithmetic of the language standard, which \<^verbatim>\<open>getDate\<close>, \<^verbatim>\<open>setDate\<close> and
  \<^verbatim>\<open>setHours\<close> are defined by. \<^verbatim>\<open>TimeClip\<close> is outside the model.
\<close>

definition msPerDay :: int where
  "msPerDay = 86400000"

definition Day :: "int \<Rightarrow> int" where
  "Day t = t div msPerDay"

definition TimeWithinDay :: "int \<Rightarrow> int" where
  "TimeWithinDay t = t mod msPerDay"

definition DaysInYear :: "int \<Rightarrow> int" where
  "DaysInYear y =
     (if y mod 4 \<noteq> 0 then 365
      else if y mod 100 \<noteq> 0 then 366
      else if y mod 400 \<noteq> 0 then 365
      else 366)"

definition DayFromYear :: "int \<Rightarrow> int" where
  "DayFromYear y =
     365 * (y - 1970) + (y - 1969) div 4 - (y - 1901) div 100 + (y - 1601) div 400"

text \<open>
  \<^verbatim>\<open>YearFromTime(t)\<close> is the largest year that starts at or before \<open>t\<close>: search upwards
  from a year that is not too late.
\<close>

function year_search :: "int \<Rightarrow> int \<Rightarrow> int" where
  "year_search d y = (if DayFromYear (y + 1) \<le> d then year_search d (y + 1) else y)"
  by pat_completeness auto
termination
proof (relation "measure (\<lambda>(d, y). nat (d - DayFromYear y))")
  show "wf (measure (\<lambda>(d, y). nat (d - DayFromYear y)))" by simp
next
  fix d y :: int
  assume le: "DayFromYear (y + 1) \<le> d"
  have a: "(y - 1969) div 4 \<le> (y + 1 - 1969) div 4"
    by (rule zdiv_mono1) simp_all
  have c: "(y - 1601) div 400 \<le> (y + 1 - 1601) div 400"
    by (rule zdiv_mono1) simp_all
  have "(y + 1 - 1901) div 100 \<le> (y - 1901 + 100) div 100"
    by (rule zdiv_mono1) simp_all
  then have b: "(y + 1 - 1901) div 100 \<le> (y - 1901) div 100 + 1"
    by simp
  have grow: "365 * (y - 1970) + p - q + r < 365 * (y + 1 - 1970) + p' - q' + r'"
    if "p \<le> p'" and "q' \<le> q + 1" and "r \<le> r'" for p p' q q' r r' :: int
    using that by simp
  have "DayFromYear y < DayFromYear (y + 1)"
    unfolding DayFromYear_def by (rule grow [OF a b c])
  with le show "((d, y + 1), (d, y)) \<in> measure (\<lambda>(d, y). nat (d - DayFromYear y))"
    by simp
qed

definition YearFromTime :: "int \<Rightarrow> int" where
  "YearFromTime t = year_search (Day t) (1970 + min (Day t div 366) (Day t div 365))"

definition InLeapYear :: "int \<Rightarrow> int" where
  "InLeapYear t = (if DaysInYear (YearFromTime t) = 366 then 1 else 0)"

definition DayWithinYear :: "int \<Rightarrow> int" where
  "DayWithinYear t = Day t - DayFromYear (YearFromTime t)"

text \<open>The day within the year on which month \<open>m\<close> (0 to 11) starts.\<close>

definition month_start :: "int \<Rightarrow> int \<Rightarrow> int" where
  "month_start m leap =
     (if m = 0 then 0 else if m = 1 then 31 else if m = 2 then 59 + leap
      else if m = 3 then 90 + leap else if m = 4 then 120 + leap
      else if m = 5 then 151 + leap else if m = 6 then 181 + leap
      else if m = 7 then 212 + leap else if m = 8 then 243 + leap
      else if m = 9 then 273 + leap else if m = 10 then 304 + leap
      else 334 + leap)"

definition MonthFromTime :: "int \<Rightarrow> int" where
  "MonthFromTime t =
     (let d = DayWithinYear t; leap = InLeapYear t
      in if d < 31 then 0 else if d < 59 + leap then 1 else if d < 90 + leap then 2
         else if d < 120 + leap then 3 else if d < 151 + leap then 4
         else if d < 181 + leap then 5 else if d < 212 + leap then 6
         else if d < 243 + leap then 7 else if d < 273 + leap then 8
         else if d < 304 + leap then 9 else if d < 334 + leap then 10
         else 11)"

definition DateFromTime :: "int \<Rightarrow> int" where
  "DateFromTime t =
     DayWithinYear t - month_start (MonthFromTime t) (InLeapYear t) + 1"

definition MakeTime :: "int \<Rightarrow> int \<Rightarrow> int \<Rightarrow> int \<Rightarrow> int" where
  "MakeTime hour minute sec ms = hour * 3600000 + minute * 60000 + sec * 1000 + ms"

definition MakeDay :: "int \<Rightarrow> int \<Rightarrow> int \<Rightarrow> int" where
  "MakeDay year month date =
     (let ym = year + month div 12; mn = month mod 12
      in DayFromYear ym + month_start mn (if DaysInYear ym = 366 then 1 else 0) + date - 1)"

definition MakeDate :: "int \<Rightarrow> int \<Rightarrow> int" where
  "MakeDate day time = day * msPerDay + time"

text \<open>
  The local time zone is the environment's: an offset in milliseconds that is in force
  at first, and the transitions after which another offset is in force, each given by
  its instant and the new offset, in order of time. \<open>offset_at\<close> is the offset in force
  at an instant. \<open>offset_of_local\<close> is the offset by which a local time is read: a
  local time that a transition skips or repeats is read with the offset before that
  transition, as the standard requires.
\<close>

record zone =
  first_offset :: int
  transitions :: "(instant \<times> int) list"

fun offset_at :: "int \<Rightarrow> (instant \<times> int) list \<Rightarrow> instant \<Rightarrow> int" where
  "offset_at off [] t = off"
| "offset_at off ((at, off') # later) t =
     (if at \<le> t then offset_at off' later t else off)"

fun offset_of_local :: "int \<Rightarrow> (instant \<times> int) list \<Rightarrow> int \<Rightarrow> int" where
  "offset_of_local off [] x = off"
| "offset_of_local off ((at, off') # later) x =
     (if at \<le> x - off \<and> at \<le> x - off' then offset_of_local off' later x else off)"

definition LocalTZA :: "zone \<Rightarrow> int \<Rightarrow> bool \<Rightarrow> int" where
  "LocalTZA z t isUTC =
     (if isUTC then offset_at (first_offset z) (transitions z) t
      else offset_of_local (first_offset z) (transitions z) t)"

definition LocalTime :: "zone \<Rightarrow> instant \<Rightarrow> int" where
  "LocalTime z t = t + LocalTZA z t True"

definition UTC :: "zone \<Rightarrow> int \<Rightarrow> instant" where
  "UTC z t = t - LocalTZA z t False"

definition getDate :: "zone \<Rightarrow> instant \<Rightarrow> int" where
  "getDate z t = DateFromTime (LocalTime z t)"

definition setDate :: "zone \<Rightarrow> int \<Rightarrow> instant \<Rightarrow> instant" where
  "setDate z dt t =
     (let lt = LocalTime z t;
          newDate = MakeDate (MakeDay (YearFromTime lt) (MonthFromTime lt) dt) (TimeWithinDay lt)
      in UTC z newDate)"

definition setHours :: "zone \<Rightarrow> int \<Rightarrow> int \<Rightarrow> int \<Rightarrow> int \<Rightarrow> instant \<Rightarrow> instant" where
  "setHours z hour minute sec ms t =
     (let lt = LocalTime z t;
          date = MakeDate (Day lt) (MakeTime hour minute sec ms)
      in UTC z date)"

section \<open>Collaborators of the command handler\<close>

text \<open>
  What \<^verbatim>\<open>chrono.parse\<close> finds, the local time zone, and how dates are printed for the
  user, belong to the environment. Strings are byte lists (UTF-8).
\<close>

record chrono_result =
  text_of :: string
  start_date :: instant

record env =
  timeZone :: zone
  chrono_parse :: "string \<Rightarrow> exn + chrono_result list"
  toLocaleString :: "instant \<Rightarrow> string"
  toLocaleDateString :: "instant \<Rightarrow> string"

text \<open>
  \<^verbatim>\<open>toLowerCase\<close> on the letters of ASCII. The result is only compared with
  \<^verbatim>\<open>'list reminders'\<close>, and no text with a character outside ASCII is lower-cased to
  that literal.
\<close>

definition toLowerCase :: "string \<Rightarrow> string" where
  "toLowerCase s =
     map (\<lambda>c. case map_of (zip ''ABCDEFGHIJKLMNOPQRSTUVWXYZ'' ''abcdefghijklmnopqrstuvwxyz'') c of
                None \<Rightarrow> c | Some l \<Rightarrow> l) s"

text \<open>\<^verbatim>\<open>s.replace(pat, rep)\<close> with a string pattern replaces the first occurrence.\<close>

fun replace_first :: "string \<Rightarrow> string \<Rightarrow> string \<Rightarrow> string" where
  "replace_first pat rep [] = (if pat = [] then rep else [])"
| "replace_first pat rep (c # cs) =
     (if take (length pat) (c # cs) = pat then rep @ drop (length pat) (c # cs)
      else c # replace_first pat rep cs)"

text \<open>\<^verbatim>\<open>s.replace(/  +/g, ' ')\<close>: every run of two or more spaces becomes one space.\<close>

fun collapse_spaces :: "string \<Rightarrow> string" where
  "collapse_spaces (a # b # cs) =
     (if a = CHR '' '' \<and> b = CHR '' '' then collapse_spaces (b # cs)
      else a # collapse_spaces (b # cs))"
| "collapse_spaces cs = cs"

text \<open>
  \<^verbatim>\<open>trim\<close> removes white space and line terminators from both ends: the code points
  U+0009 to U+000D, U+0020, U+00A0, U+1680, U+2000 to U+200A, U+2028, U+2029, U+202F,
  U+205F, U+3000 and U+FEFF, here in their UTF-8 encodings.
\<close>

definition white_space :: "string list" where
  "white_space =
     [[CHR 0x09], [CHR 0x0A], [CHR 0x0B], [CHR 0x0C], [CHR 0x0D], [CHR 0x20],
      [CHR 0xC2, CHR 0xA0], [CHR 0xE1, CHR 0x9A, CHR 0x80],
      [CHR 0xE2, CHR 0x80, CHR 0x80], [CHR 0xE2, CHR 0x80, CHR 0x81],
      [CHR 0xE2, CHR 0x80, CHR 0x82], [CHR 0xE2, CHR 0x80, CHR 0x83],
      [CHR 0xE2, CHR 0x80, CHR 0x84], [CHR 0xE2, CHR 0x80, CHR 0x85],
      [CHR 0xE2, CHR 0x80, CHR 0x86], [CHR 0xE2, CHR 0x80, CHR 0x87],
      [CHR 0xE2, CHR 0x80, CHR 0x88], [CHR 0xE2, CHR 0x80, CHR 0x89],
      [CHR 0xE2, CHR 0x80, CHR 0x8A], [CHR 0xE2, CHR 0x80, CHR 0xA8],
      [CHR 0xE2, CHR 0x80, CHR 0xA9], [CHR 0xE2, CHR 0x80, CHR 0xAF],
      [CHR 0xE2, CHR 0x81, CHR 0x9F], [CHR 0xE3, CHR 0x80, CHR 0x80],
      [CHR 0xEF, CHR 0xBB, CHR 0xBF]]"

function strip_leading :: "string list \<Rightarrow> string \<Rightarrow> string" where
  "strip_leading ws s =
     (case find (\<lambda>q. q \<noteq> [] \<and> take (length q) s = q) ws of
        None \<Rightarrow> s
      | Some q \<Rightarrow> strip_leading ws (drop (length q) s))"
  by pat_completeness auto
termination
proof (relation "measure (\<lambda>(ws, s). length s)")
  show "wf (measure (\<lambda>(ws, s). length s))" by simp
next
  fix ws :: "string list" and s q :: string
  assume "find (\<lambda>q. q \<noteq> [] \<and> take (length q) s = q) ws = Some q"
  then have q: "q \<noteq> []" and t: "take (length q) s = q"
    by (auto simp add: find_Some_iff)
  have "length (take (length q) s) = length q"
    using t by simp
  then have "length q \<le> length s"
    by simp
  with q show "((ws, drop (length q) s), (ws, s)) \<in> measure (\<lambda>(ws, s). length s)"
    by (cases q) simp_all
qed

definition trim :: "string \<Rightarrow> string" where
  "trim s = rev (strip_leading (map rev white_space) (rev (strip_leading white_space s)))"

definition bell :: string where
  "bell = [CHR 0xF0, CHR 0x9F, CHR 0x94, CHR 0x94]"

definition calendar :: string where
  "calendar = [CHR 0xF0, CHR 0x9F, CHR 0x93, CHR 0x85]"

definition thumbs_up :: string where
  "thumbs_up = [CHR 0xF0, CHR 0x9F, CHR 0x91, CHR 0x8D]"

definition alarm_clock :: string where
  "alarm_clock = [CHR 0xE2, CHR 0x8F, CHR 0xB0]"

definition party_popper :: string where
  "party_popper = [CHR 0xF0, CHR 0x9F, CHR 0x8E, CHR 0x89]"

section \<open>listReminders\<close>

definition list_entry :: "env \<Rightarrow> reminder \<Rightarrow> string" where
  "list_entry ev r =
     ''\<newline>-----------------------------\<newline>'' @
     ''*Subject:* '' @ originalSubject r @ ''\<newline>'' @
     ''*Event Date:* '' @ toLocaleDateString ev (originalDate r) @ ''\<newline>'' @
     ''*Reminder On:* '' @ toLocaleString ev (remindAt r)"

text \<open>
  \<^verbatim>\<open>Array.prototype.sort\<close> with the comparator \<^verbatim>\<open>new Date(a.remindAt) - new Date(b.remindAt)\<close>
  is a stable sort on \<open>remindAt\<close>.
\<close>

definition groupReminders :: "string \<Rightarrow> reminder list \<Rightarrow> reminder list" where
  "groupReminders cid reminders = sort_key remindAt (filter (\<lambda>r. chatId r = cid) reminders)"

text \<open>
  In \<^verbatim>\<open>listReminders\<close> the filter is a call of \<^verbatim>\<open>reminders.filter\<close> on the loaded value;
  on an array the sorted \<open>matching\<close> is \<open>groupReminders\<close>.
\<close>

definition msg_no_reminders :: string where
  "msg_no_reminders =
     ''There are no upcoming reminders for this group.  Zilch! Nada! '' @ party_popper"

definition list_header :: string where
  "list_header =
     alarm_clock @ '' *Upcoming Reminders for this Group* '' @ alarm_clock @ ''\<newline>''"

definition listReminders :: "env \<Rightarrow> string \<Rightarrow> world \<Rightarrow> (exn + unit) \<times> world" where
  "listReminders ev cid w =
     (case loadReminders (store w) of
        (Inl e, d') \<Rightarrow> (Inl e, w\<lparr>store := d'\<rparr>)
      | (Inr reminders, d') \<Rightarrow>
          (case js_filter (\<lambda>r. chatId r = cid) reminders of
             Inl e \<Rightarrow> (Inl e, w\<lparr>store := d'\<rparr>)
           | Inr matching \<Rightarrow>
               (if length matching = 0 then
                  (Inr (), reply msg_no_reminders (w\<lparr>store := d'\<rparr>))
                else
                  (Inr (),
                   reply (foldl (\<lambda>acc r. acc @ list_entry ev r) list_header
                            (sort_key remindAt matching))
                     (w\<lparr>store := d'\<rparr>)))))"

section \<open>handleCommand\<close>

text \<open>
  The values of the local variables \<^verbatim>\<open>reminderSubject\<close>, \<^verbatim>\<open>remindAt\<close> (one day before
  the parsed date, at 9:00 AM local time) and \<^verbatim>\<open>reminderMessage\<close>.
\<close>

definition reminderSubject_of :: "string \<Rightarrow> string \<Rightarrow> string" where
  "reminderSubject_of commandText dateText =
     trim (collapse_spaces (replace_first dateText [] commandText))"

definition remindAt_for :: "zone \<Rightarrow> instant \<Rightarrow> instant" where
  "remindAt_for z parsedDate =
     (let r0 = parsedDate;
          r1 = setDate z (getDate z r0 - 1) r0;
          r2 = setHours z 9 0 0 0 r1
      in r2)"

definition reminderMessage_of :: "string \<Rightarrow> string" where
  "reminderMessage_of reminderSubject =
     bell @ '' *REMINDER* '' @ bell @ ''\<newline>\<newline>Tomorrow: '' @ reminderSubject @ '' '' @ calendar"

definition msg_no_date :: string where
  "msg_no_date =
     ''Sorry, I couldn't understand the date or time. Try something like:'' @
     ''\<newline>\<newline>*@bot next Monday exam fees are due*''"

definition msg_no_subject :: string where
  "msg_no_subject =
     ''Please provide a subject for the reminder. Example:'' @
     ''\<newline>*@bot tomorrow submit the assignment*''"

definition msg_too_soon :: string where
  "msg_too_soon =
     ''That date is too soon or already in the past! I can't set a reminder for it.''"

definition msg_got_it :: "string \<Rightarrow> string" where
  "msg_got_it when =
     ''Got it! '' @ thumbs_up @ ''\<newline>\<newline>I'll remind this group on *'' @ when @ ''*.''"

definition msg_oops :: string where
  "msg_oops = ''Oops, something went wrong. Please try again.''"

definition handleCommand_try ::
  "env \<Rightarrow> instant \<Rightarrow> string \<Rightarrow> string \<Rightarrow> world \<Rightarrow> (exn + unit) \<times> world" where
  "handleCommand_try ev now commandText cid w =
     (case chrono_parse ev commandText of
        Inl e \<Rightarrow> (Inl e, w)
      | Inr results \<Rightarrow>
          (case results of
             [] \<Rightarrow> (Inr (), reply msg_no_date w)
           | res # others \<Rightarrow>
               (let parsedDate = start_date res;
                    dateText = text_of res;
                    reminderSubject = reminderSubject_of commandText dateText
                in if reminderSubject = [] then (Inr (), reply msg_no_subject w)
                   else
                     (let remindAt' = remindAt_for (timeZone ev) parsedDate
                      in if remindAt' < now then (Inr (), reply msg_too_soon w)
                         else
                           (let reminderMessage' = reminderMessage_of reminderSubject
                            in case scheduleNewReminder cid reminderMessage' remindAt' w of
                                 (jobId, w1) \<Rightarrow>
                                   (let newReminder =
                                          \<lparr>id_of = jobId, chatId = cid,
                                           reminderMessage = reminderMessage',
                                           remindAt = remindAt',
                                           originalSubject = reminderSubject,
                                           originalDate = parsedDate\<rparr>
                                    in case loadReminders (store w1) of
                                         (Inl e, d') \<Rightarrow> (Inl e, w1\<lparr>store := d'\<rparr>)
                                       | (Inr reminders, d') \<Rightarrow>
                                           (case js_push reminders newReminder of
                                              Inl e \<Rightarrow> (Inl e, w1\<lparr>store := d'\<rparr>)
                                            | Inr pushed \<Rightarrow>
                                                (case saveReminders pushed d' of
                                                   (Inl e, d'') \<Rightarrow> (Inl e, w1\<lparr>store := d''\<rparr>)
                                                 | (Inr u, d'') \<Rightarrow>
                                                     (Inr (),
                                                      reply (msg_got_it (toLocaleString ev remindAt'))
                                                        (w1\<lparr>store := d''\<rparr>))))))))))"

text \<open>
  The list command is handled before the \<^verbatim>\<open>try\<close>: what \<^verbatim>\<open>listReminders\<close> throws leaves
  \<^verbatim>\<open>handleCommand\<close>.
\<close>

definition handleCommand ::
  "env \<Rightarrow> instant \<Rightarrow> string \<Rightarrow> string \<Rightarrow> world \<Rightarrow> (exn + unit) \<times> world" where
  "handleCommand ev now commandText cid w =
     (if toLowerCase commandText = ''list reminders'' then listReminders ev cid w
      else
        (case handleCommand_try ev now commandText cid w of
           (Inl error, w') \<Rightarrow> (Inr (), reply msg_oops w')
         | (Inr u, w') \<Rightarrow> (Inr (), w')))"


section \<open>Vocabulary of the properties\<close>

text \<open>
  The next call of \<^verbatim>\<open>fs.writeFileSync\<close> succeeds; the file is absent, unreadable or holds
  an array, so that \<^verbatim>\<open>loadReminders\<close> yields an array; a disk on which every write
  succeeds and whose file holds the given array; the job that \<^verbatim>\<open>scheduleNewReminder\<close>
  registers for a stored reminder; the record that \<^verbatim>\<open>handleCommand\<close> builds as
  \<^verbatim>\<open>newReminder\<close>.
\<close>

definition write_succeeds :: "disk \<Rightarrow> bool" where
  "write_succeeds d = (case faults d of [] \<Rightarrow> True | f # fs \<Rightarrow> f = Written)"

definition yields_array :: "disk \<Rightarrow> bool" where
  "yields_array d = (case content d of Some (NonArray k) \<Rightarrow> False | _ \<Rightarrow> True)"

definition holding :: "reminder list \<Rightarrow> disk" where
  "holding rs = \<lparr>content = Some (Array rs), faults = []\<rparr>"

definition job_of :: "reminder \<Rightarrow> job" where
  "job_of r =
     \<lparr>jobName = ''reminder_'' @ chatId r @ ''_'' @ show_int (remindAt r),
      jobDate = remindAt r, jobChat = chatId r, jobMessage = reminderMessage r\<rparr>"

definition newReminder_of :: "string \<Rightarrow> string \<Rightarrow> instant \<Rightarrow> instant \<Rightarrow> reminder" where
  "newReminder_of cid subject parsedDate fireAt =
     \<lparr>id_of = ''reminder_'' @ cid @ ''_'' @ show_int fireAt, chatId = cid,
      reminderMessage = reminderMessage_of subject, remindAt = fireAt,
      originalSubject = subject, originalDate = parsedDate\<rparr>"

text \<open>
  A local time that exists in the zone: reading it and showing the instant again gives
  it back. A transition to a larger offset skips the local times in between. The weaker
  property asks only that the instant shows a time on the same day.
\<close>

definition not_skipped :: "zone \<Rightarrow> int \<Rightarrow> bool" where
  "not_skipped z x = (LocalTime z (UTC z x) = x)"

definition resolves_on_its_day :: "zone \<Rightarrow> int \<Rightarrow> bool" where
  "resolves_on_its_day z x = (Day (LocalTime z (UTC z x)) = Day x)"

text \<open>
  Examples. Three stored reminders and worlds holding them. Three zones: one that stays
  five and a half hours ahead of UTC; one that is five hours behind UTC, four from
  2024-03-10T07:00:00Z and five again from 2024-11-03T06:00:00Z; and one that is two hours
  behind UTC and one hour from 2024-03-31T01:00:00Z, which skips the last hour of
  Saturday 30 March. An environment for each zone, with a parser that finds one date:
  2024-03-01T15:30:00Z, 2024-03-11T06:30:00Z (02:30 local time) and 2024-04-01T00:30:00Z
  (23:30 on Sunday 31 March local time). The reminders that the code makes of the last
  two, and a store whose file holds \<^verbatim>\<open>{}\<close>.
\<close>

definition fees :: reminder where
  "fees = \<lparr>id_of = ''reminder_g1_1709177400000'', chatId = ''g1'',
           reminderMessage = reminderMessage_of ''exam fees'', remindAt = 1709177400000,
           originalSubject = ''exam fees'', originalDate = 1709307000000\<rparr>"

definition rent :: reminder where
  "rent = \<lparr>id_of = ''reminder_g1_1708918200000'', chatId = ''g1'',
           reminderMessage = ''rent'', remindAt = 1708918200000,
           originalSubject = ''pay rent'', originalDate = 1709047800000\<rparr>"

definition quiz :: reminder where
  "quiz = \<lparr>id_of = ''reminder_g2_1709177400000'', chatId = ''g2'',
           reminderMessage = ''quiz'', remindAt = 1709177400000,
           originalSubject = ''quiz'', originalDate = 1709307000000\<rparr>"

definition fees_world :: world where
  "fees_world = \<lparr>store = holding [fees], jobs = [job_of fees], sent = [], replies = []\<rparr>"

definition two_world :: world where
  "two_world = \<lparr>store = holding [rent, fees], jobs = [], sent = [], replies = []\<rparr>"

definition ist :: zone where
  "ist = \<lparr>first_offset = 19800000, transitions = []\<rparr>"

definition eastern :: zone where
  "eastern = \<lparr>first_offset = - 18000000,
              transitions = [(1710054000000, - 14400000), (1730613600000, - 18000000)]\<rparr>"




definition ist_env :: env where
  "ist_env = \<lparr>timeZone = ist,
              chrono_parse = (\<lambda>s. Inr [\<lparr>text_of = ''1 March'', start_date = 1709307000000\<rparr>]),
              toLocaleString = show_int, toLocaleDateString = show_int\<rparr>"

definition three_world :: world where
  "three_world = \<lparr>store = holding [fees, quiz, rent], jobs = [], sent = [], replies = []\<rparr>"

definition empty_world :: world where
  "empty_world = \<lparr>store = holding [], jobs = [], sent = [], replies = []\<rparr>"



definition object_disk :: disk where
  "object_disk = \<lparr>content = Some (NonArray JObject), faults = []\<rparr>"

definition object_world :: world where
  "object_world = \<lparr>store = object_disk, jobs = [], sent = [], replies = []\<rparr>"

section \<open>Properties of the store\<close>

lemma loadReminders_Inr: "\<exists>v. fst (loadReminders d) = Inr v"
  by (simp add: loadReminders_def split: prod.splits sum.splits)

lemma loadReminders_array:
  "content d = Some (Array rs) \<Longrightarrow> loadReminders d = (Inr (ArrayValue rs), d)"
  by (simp add: loadReminders_def loadReminders_try_def existsSync_def readFileSync_def
      JSON_parse_def)

lemma loadReminders_garbage:
  "content d = Some Garbage \<Longrightarrow> loadReminders d = (Inr (ArrayValue []), d)"
  by (simp add: loadReminders_def loadReminders_try_def existsSync_def readFileSync_def
      JSON_parse_def)

lemma loadReminders_non_array:
  "content d = Some (NonArray k) \<Longrightarrow> loadReminders d = (Inr (OtherValue k), d)"
  by (simp add: loadReminders_def loadReminders_try_def existsSync_def readFileSync_def
      JSON_parse_def)

lemma loadReminders_absent:
  "content d = None \<Longrightarrow> fst (loadReminders d) = Inr (ArrayValue [])"
  by (simp add: loadReminders_def loadReminders_try_def existsSync_def
      split: prod.splits sum.splits)

lemma writeFileSync_ok:
  "write_succeeds d \<Longrightarrow>
   writeFileSync t d = (Inr (), d\<lparr>content := Some t, faults := tl (faults d)\<rparr>)"
  by (cases "faults d") (simp_all add: write_succeeds_def writeFileSync_def)

lemma loadReminders_absent_init:
  "content d = None \<Longrightarrow> write_succeeds d \<Longrightarrow>
   content (snd (loadReminders d)) = Some (Array [])"
  by (simp add: loadReminders_def loadReminders_try_def existsSync_def writeFileSync_ok)

lemma saveReminders_Inr: "fst (saveReminders xs d) = Inr ()"
  by (simp add: saveReminders_def split: prod.splits sum.splits)

lemma saveReminders_ok:
  "write_succeeds d \<Longrightarrow>
   saveReminders xs d = (Inr (), d\<lparr>content := Some (Array xs), faults := tl (faults d)\<rparr>)"
  by (simp add: saveReminders_def saveReminders_try_def writeFileSync_ok JSON_stringify_def)


text \<open>
  Unless the file holds valid JSON that is not an array, \<^verbatim>\<open>loadReminders\<close> yields the
  array of the stored reminders, and leaves them as they are.
\<close>

lemma loadReminders_yields_array:
  "yields_array d \<Longrightarrow> fst (loadReminders d) = Inr (ArrayValue (stored d))"
  by (simp add: yields_array_def loadReminders_def loadReminders_try_def existsSync_def
      readFileSync_def JSON_parse_def writeFileSync_def stored_def
      split: option.splits json_text.splits list.splits write_outcome.splits)

lemma stored_loadReminders: "stored (snd (loadReminders d)) = stored d"
  by (simp add: loadReminders_def loadReminders_try_def existsSync_def readFileSync_def
      JSON_parse_def writeFileSync_def stored_def
      split: option.splits json_text.splits list.splits write_outcome.splits)

lemma loadReminders_case:
  assumes "yields_array d"
  shows "(case loadReminders d of (Inl e, d') \<Rightarrow> f e d' | (Inr v, d') \<Rightarrow> g v d') =
     g (ArrayValue (stored d)) (snd (loadReminders d))"
  using loadReminders_yields_array [OF assms] by (cases "loadReminders d") auto

lemma saveReminders_case:
  "(case saveReminders xs d of (Inl e, d') \<Rightarrow> f e d' | (Inr u, d') \<Rightarrow> g u d') =
     g () (snd (saveReminders xs d))"
  using saveReminders_Inr [of xs d] by (cases "saveReminders xs d") auto


lemma removeReminder_non_array:
  "content d = Some (NonArray k) \<Longrightarrow> removeReminder jobId d = (Inl TypeError, d)"
  by (simp add: removeReminder_def loadReminders_non_array js_filter_def)

lemma removeReminder_ok:
  "content d = Some (Array rs) \<Longrightarrow> write_succeeds d \<Longrightarrow>
   removeReminder jobId d =
     (Inr (), d\<lparr>content := Some (Array (filter (\<lambda>r. id_of r \<noteq> jobId) rs)),
                faults := tl (faults d)\<rparr>)"
  by (simp add: removeReminder_def loadReminders_array js_filter_def saveReminders_ok)

lemma stored_array: "content d = Some (Array rs) \<Longrightarrow> stored d = rs"
  by (simp add: stored_def)

lemma write_succeeds_holding: "write_succeeds (holding rs)"
  by (simp add: write_succeeds_def holding_def)

lemma content_holding: "content (holding rs) = Some (Array rs)"
  by (simp add: holding_def)

lemma stored_holding: "stored (holding xs) = xs"
  by (simp add: stored_def holding_def)


text \<open>
  Claim C6. The claim holds of a file that is absent (the empty array is returned and,
  when that write succeeds, written) and of a file that cannot be read or parsed (the
  empty array is returned), and \<^verbatim>\<open>loadReminders\<close> itself never raises. It fails on a file
  whose content is damaged in another way, valid JSON that is not an array: for the
  file \<^verbatim>\<open>{}\<close> the object is returned as it is, although the function is documented to
  return an array, and the caller at startup, \<^verbatim>\<open>rescheduleReminders\<close>, raises a
  \<^verbatim>\<open>TypeError\<close> that nothing catches.
\<close>

theorem loadReminders_returns_non_array:
  "loadReminders object_disk = (Inr (OtherValue JObject), object_disk) \<and>
   rescheduleReminders 0 object_world = (Inl TypeError, object_world)"
proof -
  have c: "content object_disk = Some (NonArray JObject)"
    by (simp add: object_disk_def)
  have l: "loadReminders object_disk = (Inr (OtherValue JObject), object_disk)"
    by (rule loadReminders_non_array [OF c])
  have s: "store object_world = object_disk"
    by (simp add: object_world_def)
  have "rescheduleReminders 0 object_world = (Inl TypeError, object_world\<lparr>store := object_disk\<rparr>)"
    by (simp add: rescheduleReminders_def s l js_iterate_def)
  then have "rescheduleReminders 0 object_world = (Inl TypeError, object_world)"
    by (simp add: object_world_def)
  with l show ?thesis by simp
qed

text \<open>What does hold of \<^verbatim>\<open>loadReminders\<close> on every disk.\<close>

lemma loadReminders_never_raises:
  "(\<exists>v. fst (loadReminders d) = Inr v) \<and>
   (content d = None \<longrightarrow> fst (loadReminders d) = Inr (ArrayValue [])) \<and>
   (content d = None \<and> write_succeeds d \<longrightarrow> content (snd (loadReminders d)) = Some (Array [])) \<and>
   (content d = Some Garbage \<longrightarrow> loadReminders d = (Inr (ArrayValue []), d)) \<and>
   (\<forall>k. content d = Some (NonArray k) \<longrightarrow> loadReminders d = (Inr (OtherValue k), d))"
  using loadReminders_Inr [of d] loadReminders_absent [of d] loadReminders_absent_init [of d]
    loadReminders_garbage [of d] loadReminders_non_array [of d]
  by blast

text \<open>
  Claim C7. When the file holds an array of reminders, saving what \<^verbatim>\<open>loadReminders\<close>
  returns leaves the content of the store unchanged, record for record and field for
  field.
\<close>
theorem save_load_round_trip:
  assumes "content d = Some (Array rs)" and "write_succeeds d"
  shows "\<exists>xs d'. loadReminders d = (Inr (ArrayValue xs), d') \<and>
           fst (saveReminders xs d') = Inr () \<and>
           content (snd (saveReminders xs d')) = content d \<and>
           stored (snd (saveReminders xs d')) = stored d"
  using assms by (simp add: loadReminders_array saveReminders_ok stored_def)

theorem save_load_round_trip_witness:
  "\<exists>xs d'. loadReminders (holding [fees, rent]) = (Inr (ArrayValue xs), d') \<and>
     fst (saveReminders xs d') = Inr () \<and>
     content (snd (saveReminders xs d')) = Some (Array [fees, rent]) \<and>
     stored (snd (saveReminders xs d')) = [fees, rent]"
  using save_load_round_trip [of "holding [fees, rent]" "[fees, rent]"]
  by (simp add: write_succeeds_holding content_holding stored_array)

text \<open>
  Claim C8. Removing an id that no stored record has returns normally and leaves the
  content of the store unchanged.
\<close>
theorem removeReminder_unknown_id:
  assumes "content d = Some (Array rs)" and "write_succeeds d"
    and "\<forall>r \<in> set rs. id_of r \<noteq> jobId"
  shows "fst (removeReminder jobId d) = Inr () \<and>
         content (snd (removeReminder jobId d)) = content d"
  using assms by (simp add: removeReminder_ok filter_id_conv)

theorem removeReminder_unknown_id_witness:
  "fst (removeReminder ''reminder_g9_0'' (holding [fees, rent])) = Inr () \<and>
   content (snd (removeReminder ''reminder_g9_0'' (holding [fees, rent]))) = Some (Array [fees, rent])"
  using removeReminder_unknown_id [of "holding [fees, rent]" "[fees, rent]" "''reminder_g9_0''"]
  by (simp add: write_succeeds_holding content_holding fees_def rent_def)

text \<open>
  Claim C10. \<^verbatim>\<open>removeReminder\<close> filters out every record with the given id, not only the
  first one: afterwards the store holds no record with that id, also when several
  records shared it.
\<close>
theorem removeReminder_all_matches:
  assumes "content d = Some (Array rs)" and "write_succeeds d"
  shows "fst (removeReminder jobId d) = Inr () \<and>
         stored (snd (removeReminder jobId d)) = filter (\<lambda>r. id_of r \<noteq> jobId) rs \<and>
         (\<forall>r \<in> set (stored (snd (removeReminder jobId d))). id_of r \<noteq> jobId)"
  using assms by (simp add: removeReminder_ok stored_def)

theorem removeReminder_all_matches_witness:
  "fst (removeReminder (id_of fees) (holding [fees, rent, fees])) = Inr () \<and>
   stored (snd (removeReminder (id_of fees) (holding [fees, rent, fees]))) = [rent]"
  using removeReminder_all_matches [of "holding [fees, rent, fees]" "[fees, rent, fees]" "id_of fees"]
  by (simp add: write_succeeds_holding content_holding fees_def rent_def)

section \<open>Properties of the timer callback\<close>

lemma reminderJob_delivered:
  "reminderJob True j w =
     (Inr (), w\<lparr>sent := sent w @ [(jobChat j, jobMessage j)],
                store := snd (removeReminder (jobName j) (store w))\<rparr>)"
  by (simp add: reminderJob_def reminderJob_try_def sendMessage_def split: prod.splits sum.splits)

lemma reminderJob_rejected: "reminderJob False j w = (Inr (), w)"
  by (simp add: reminderJob_def reminderJob_try_def sendMessage_def)

text \<open>
  Claim C1, as the code has it. The callback first sends the message to the chat of the
  job. When the send succeeds it then removes the reminder of that id from the store;
  when the send is rejected, \<^verbatim>\<open>removeReminder\<close> is not reached and world and store stay as
  they were.
\<close>
theorem reminderJob_removes_after_send:
  assumes "content (store w) = Some (Array rs)" and "write_succeeds (store w)"
  shows "sent (snd (reminderJob True j w)) = sent w @ [(jobChat j, jobMessage j)] \<and>
         stored (store (snd (reminderJob True j w))) = filter (\<lambda>r. id_of r \<noteq> jobName j) rs \<and>
         reminderJob False j w = (Inr (), w)"
  using assms
  by (simp add: reminderJob_delivered reminderJob_rejected removeReminder_ok stored_def)

lemma show_int_fees: "show_int 1709177400000 = ''1709177400000''"
  by (simp add: show_int_def digit_char_def)

lemma job_of_fees:
  "job_of fees = \<lparr>jobName = id_of fees, jobDate = 1709177400000, jobChat = ''g1'',
                    jobMessage = reminderMessage_of ''exam fees''\<rparr>"
  by (simp add: job_of_def fees_def show_int_fees)

theorem reminderJob_removes_after_send_witness:
  "sent (snd (reminderJob True (job_of fees) fees_world)) = [(''g1'', reminderMessage_of ''exam fees'')] \<and>
   stored (store (snd (reminderJob True (job_of fees) fees_world))) = [] \<and>
   reminderJob False (job_of fees) fees_world = (Inr (), fees_world)"
proof -
  have c: "content (store fees_world) = Some (Array [fees])"
    by (simp add: fees_world_def content_holding)
  have ws: "write_succeeds (store fees_world)"
    by (simp add: fees_world_def write_succeeds_holding)
  have s: "sent fees_world = []"
    by (simp add: fees_world_def)
  show ?thesis
    using reminderJob_removes_after_send [OF c ws, of "job_of fees"]
    by (simp add: s job_of_fees)
qed

text \<open>
  The claim as the specification states it fails: after a rejected send the record of
  the job is still in the store.
\<close>

theorem reminderJob_failed_send_counterexample:
  "jobName (job_of fees) = id_of fees \<and>
   fst (reminderJob_try False (job_of fees) fees_world) = Inl SendError \<and>
   stored (store (snd (reminderJob False (job_of fees) fees_world))) = [fees]"
  by (simp add: reminderJob_rejected reminderJob_try_def sendMessage_def job_of_fees)
    (simp add: fees_world_def stored_def holding_def)

section \<open>Properties of rescheduleReminders and of saving\<close>

lemma reschedule_loop_result:
  "reschedule_loop now rs (w, valid) =
     (w\<lparr>jobs := jobs w @ map job_of (filter (\<lambda>r. now < remindAt r) rs)\<rparr>,
      valid @ filter (\<lambda>r. now < remindAt r) rs)"
proof (induction rs arbitrary: w valid)
  case Nil
  show ?case by simp
next
  case (Cons r rs)
  show ?case
    by (simp add: Cons.IH scheduleNewReminder_def job_of_def Let_def)
qed


lemma rescheduleReminders_non_array:
  assumes "content (store w) = Some (NonArray k)" and "k \<noteq> JString"
  shows "rescheduleReminders now w = (Inl TypeError, w)"
  using assms
  by (simp add: rescheduleReminders_def loadReminders_non_array js_iterate_def)

lemma rescheduleReminders_ok:
  assumes "content (store w) = Some (Array rs)" and "write_succeeds (store w)"
  shows "rescheduleReminders now w =
     (Inr (), w\<lparr>jobs := jobs w @ map job_of (filter (\<lambda>r. now < remindAt r) rs),
                store := (store w)\<lparr>content := Some (Array (filter (\<lambda>r. now < remindAt r) rs)),
                                   faults := tl (faults (store w))\<rparr>\<rparr>)"
  using assms
  by (simp add: rescheduleReminders_def loadReminders_array js_iterate_def
      reschedule_loop_result saveReminders_ok)

text \<open>
  Claim C4. On a stored array, \<^verbatim>\<open>rescheduleReminders\<close> registers one job for each record
  with \<open>remindAt > now\<close>, in order, saves back exactly those records, keeps no record
  with \<open>remindAt \<le> now\<close>, and sends nothing.
\<close>
theorem rescheduleReminders_partition:
  assumes "content (store w) = Some (Array rs)" and "write_succeeds (store w)"
  shows "fst (rescheduleReminders now w) = Inr () \<and>
         jobs (snd (rescheduleReminders now w)) =
           jobs w @ map job_of (filter (\<lambda>r. now < remindAt r) rs) \<and>
         stored (store (snd (rescheduleReminders now w))) = filter (\<lambda>r. now < remindAt r) rs \<and>
         (\<forall>r \<in> set rs. remindAt r \<le> now \<longrightarrow> r \<notin> set (stored (store (snd (rescheduleReminders now w))))) \<and>
         sent (snd (rescheduleReminders now w)) = sent w"
  by (simp add: rescheduleReminders_ok [OF assms] stored_def)

theorem rescheduleReminders_partition_witness:
  "fst (rescheduleReminders 1709000000000 two_world) = Inr () \<and>
   jobs (snd (rescheduleReminders 1709000000000 two_world)) = [job_of fees] \<and>
   stored (store (snd (rescheduleReminders 1709000000000 two_world))) = [fees] \<and>
   rent \<notin> set (stored (store (snd (rescheduleReminders 1709000000000 two_world)))) \<and>
   sent (snd (rescheduleReminders 1709000000000 two_world)) = []"
proof -
  have c: "content (store two_world) = Some (Array [rent, fees])"
    by (simp add: two_world_def content_holding)
  have ws: "write_succeeds (store two_world)"
    by (simp add: two_world_def write_succeeds_holding)
  have r: "remindAt rent = 1708918200000" and f: "remindAt fees = 1709177400000"
    by (simp_all add: rent_def fees_def)
  have e: "jobs two_world = []" "sent two_world = []"
    by (simp_all add: two_world_def)
  have n: "rent \<noteq> fees"
    by (simp add: rent_def fees_def)
  show ?thesis
    using rescheduleReminders_partition [OF c ws, of 1709000000000]
    by (simp add: r f e n)
qed


lemma listReminders_non_array:
  "content (store w) = Some (NonArray k) \<Longrightarrow> listReminders ev cid w = (Inl TypeError, w)"
  by (simp add: listReminders_def loadReminders_non_array js_filter_def)





section \<open>Properties of listReminders\<close>

lemma groupReminders_sorted: "sorted (map remindAt (groupReminders cid rs))"
  by (simp add: groupReminders_def)

lemma groupReminders_mset:
  "mset (groupReminders cid rs) = filter_mset (\<lambda>r. chatId r = cid) (mset rs)"
  by (simp add: groupReminders_def)

lemma groupReminders_Nil:
  "(filter (\<lambda>r. chatId r = cid) rs = []) = (groupReminders cid rs = [])"
proof -
  have "length (groupReminders cid rs) = length (filter (\<lambda>r. chatId r = cid) rs)"
    by (simp add: groupReminders_def)
  then show ?thesis by (metis length_0_conv)
qed

text \<open>
  Claim C5. On a stored array, \<^verbatim>\<open>listReminders\<close> replies with the entries of exactly the
  records of the chat, sorted ascending by \<open>remindAt\<close>, computed from the array that
  the file holds at the call.
\<close>
theorem listReminders_sorted_by_remindAt:
  assumes "content (store w) = Some (Array rs)"
  shows "sorted (map remindAt (groupReminders cid rs)) \<and>
         mset (groupReminders cid rs) = filter_mset (\<lambda>r. chatId r = cid) (mset rs) \<and>
         listReminders ev cid w =
           (Inr (),
            reply (if groupReminders cid rs = [] then msg_no_reminders
                   else foldl (\<lambda>acc r. acc @ list_entry ev r) list_header (groupReminders cid rs))
              w)"
proof -
  have "listReminders ev cid w =
          (Inr (),
           reply (if filter (\<lambda>r. chatId r = cid) rs = [] then msg_no_reminders
                  else foldl (\<lambda>acc r. acc @ list_entry ev r) list_header (groupReminders cid rs))
             w)"
    using assms
    by (simp add: listReminders_def loadReminders_array js_filter_def groupReminders_def)
  then show ?thesis
    by (simp add: groupReminders_sorted groupReminders_mset groupReminders_Nil)
qed

lemma groupReminders_three: "groupReminders ''g1'' [fees, quiz, rent] = [rent, fees]"
  by (simp add: groupReminders_def fees_def quiz_def rent_def)

theorem listReminders_sorted_by_remindAt_witness:
  "groupReminders ''g1'' [fees, quiz, rent] = [rent, fees] \<and>
   listReminders ist_env ''g1'' three_world =
     (Inr (), reply (list_header @ list_entry ist_env rent @ list_entry ist_env fees) three_world)"
proof -
  have c: "content (store three_world) = Some (Array [fees, quiz, rent])"
    by (simp add: three_world_def content_holding)
  show ?thesis
    using listReminders_sorted_by_remindAt [OF c, of "''g1''" ist_env]
    by (simp add: groupReminders_three)
qed

section \<open>The year of a time value\<close>

text \<open>
  \<open>YearFromTime\<close> is the year the standard asks for: the one whose first day is at
  or before the day of \<open>t\<close> while the next year starts after it.
\<close>

lemma DayFromYear_less: "DayFromYear y < DayFromYear (y + 1)"
proof -
  have a: "(y - 1969) div 4 \<le> (y + 1 - 1969) div 4"
    by (rule zdiv_mono1) simp_all
  have c: "(y - 1601) div 400 \<le> (y + 1 - 1601) div 400"
    by (rule zdiv_mono1) simp_all
  have "(y + 1 - 1901) div 100 \<le> (y - 1901 + 100) div 100"
    by (rule zdiv_mono1) simp_all
  then have b: "(y + 1 - 1901) div 100 \<le> (y - 1901) div 100 + 1"
    by simp
  have grow: "365 * (y - 1970) + p - q + r < 365 * (y + 1 - 1970) + p' - q' + r'"
    if "p \<le> p'" and "q' \<le> q + 1" and "r \<le> r'" for p p' q q' r r' :: int
    using that by simp
  show ?thesis
    unfolding DayFromYear_def by (rule grow [OF a b c])
qed

lemma year_search_bounds:
  "DayFromYear y \<le> d \<Longrightarrow>
   DayFromYear (year_search d y) \<le> d \<and> d < DayFromYear (year_search d y + 1)"
proof (induction d y rule: year_search.induct)
  case (1 d y)
  show ?case
  proof (cases "DayFromYear (y + 1) \<le> d")
    case True
    with "1.IH" have "DayFromYear (year_search d (y + 1)) \<le> d \<and>
        d < DayFromYear (year_search d (y + 1) + 1)" by simp
    moreover have "year_search d y = year_search d (y + 1)"
      using True by (subst year_search.simps) simp
    ultimately show ?thesis by simp
  next
    case False
    then have "year_search d y = y"
      by (subst year_search.simps) simp
    with False "1.prems" show ?thesis by simp
  qed
qed

lemma int_div_bounds:
  fixes a n :: int
  assumes "0 < n"
  shows "n * (a div n) \<le> a" and "a < n * (a div n) + n"
proof -
  have e: "n * (a div n) + a mod n = a" by simp
  have "0 \<le> a mod n" and "a mod n < n"
    using assms by simp_all
  with e show "n * (a div n) \<le> a" and "a < n * (a div n) + n"
    by linarith+
qed

lemma leap_days_upper:
  fixes k p q r :: int
  assumes p: "4 * p \<le> k + 1" and q: "k + 69 < 100 * q + 100" and r: "400 * r \<le> k + 369"
    and k: "0 \<le> k"
  shows "p - q + r \<le> k"
proof (cases "k = 0")
  case True
  from p True have "p \<le> 0" by simp
  moreover from q True have "0 \<le> q" by simp
  moreover from r True have "r \<le> 0" by simp
  ultimately show ?thesis using True by simp
next
  case False
  with k have "1 \<le> k" by simp
  with p q r show ?thesis by linarith
qed

lemma leap_days_lower:
  fixes k p q r :: int
  assumes p: "4 * p \<le> k + 1" and q: "k + 69 < 100 * q + 100" and r: "400 * r \<le> k + 369"
    and k: "k < 0"
  shows "p - q + r \<le> 0"
proof (cases "- 69 \<le> k")
  case True
  from p k have "p \<le> 0" by simp
  moreover from q True have "0 \<le> q" by simp
  moreover from r k have "r \<le> 0" by simp
  ultimately show ?thesis by simp
next
  case False
  with p q r show ?thesis by linarith
qed

lemma DayFromYear_1970:
  "DayFromYear (1970 + k) = 365 * k + ((k + 1) div 4 - (k + 69) div 100 + (k + 369) div 400)"
  by (simp add: DayFromYear_def add.commute)

lemma year_start_bound: "DayFromYear (1970 + min (d div 366) (d div 365)) \<le> d"
proof (cases "0 \<le> d")
  case True
  define k where "k = d div 366"
  define x where "x = (k + 1) div 4 - (k + 69) div 100 + (k + 369) div 400"
  have k0: "0 \<le> k"
    using True by (simp add: k_def)
  have kd: "366 * k \<le> d"
    unfolding k_def by (rule int_div_bounds) simp
  have m: "min (d div 366) (d div 365) = k"
    unfolding k_def using True by (simp add: zdiv_mono2)
  have "x \<le> k"
    unfolding x_def
    by (rule leap_days_upper [OF int_div_bounds(1) int_div_bounds(2) int_div_bounds(1) k0])
      simp_all
  moreover have "DayFromYear (1970 + k) = 365 * k + x"
    unfolding x_def by (rule DayFromYear_1970)
  ultimately show ?thesis
    using kd by (simp add: m)
next
  case False
  define k where "k = d div 365"
  define x where "x = (k + 1) div 4 - (k + 69) div 100 + (k + 369) div 400"
  have k0: "k < 0"
    using False by (simp add: k_def div_neg_pos_less0)
  have kd: "365 * k \<le> d"
    unfolding k_def by (rule int_div_bounds) simp
  have "d div 365 \<le> d div 366"
    using False by (intro zdiv_mono2_neg) simp_all
  then have m: "min (d div 366) (d div 365) = k"
    by (simp add: k_def)
  have "x \<le> 0"
    unfolding x_def
    by (rule leap_days_lower [OF int_div_bounds(1) int_div_bounds(2) int_div_bounds(1) k0])
      simp_all
  moreover have "DayFromYear (1970 + k) = 365 * k + x"
    unfolding x_def by (rule DayFromYear_1970)
  ultimately show ?thesis
    using kd by (simp add: m)
qed

lemma YearFromTime_bounds:
  "DayFromYear (YearFromTime t) \<le> Day t \<and> Day t < DayFromYear (YearFromTime t + 1)"
  unfolding YearFromTime_def by (rule year_search_bounds) (rule year_start_bound)

section \<open>Properties of the reminder time\<close>









text \<open>In a zone without transitions every local time exists.\<close>

lemma no_transitions_not_skipped:
  assumes "transitions z = []"
  shows "not_skipped z x" and "resolves_on_its_day z x"
  using assms
  by (simp_all add: not_skipped_def resolves_on_its_day_def LocalTime_def UTC_def LocalTZA_def)

section \<open>Properties of handleCommand\<close>

lemma stored_saveReminders:
  "set (stored (snd (saveReminders xs d))) \<subseteq> set xs \<union> set (stored d)"
  by (simp add: saveReminders_def saveReminders_try_def writeFileSync_def JSON_stringify_def
      stored_def split: list.splits write_outcome.splits)

lemma handleCommand_too_soon:
  assumes "toLowerCase commandText \<noteq> ''list reminders''"
    and "chrono_parse ev commandText = Inr (res # others)"
    and "reminderSubject_of commandText (text_of res) \<noteq> []"
    and "remindAt_for (timeZone ev) (start_date res) < now"
  shows "handleCommand ev now commandText cid w = (Inr (), reply msg_too_soon w)"
  using assms by (simp add: handleCommand_def handleCommand_try_def Let_def)

lemma handleCommand_parser_throws:
  assumes "toLowerCase commandText \<noteq> ''list reminders''"
    and "chrono_parse ev commandText = Inl e"
  shows "handleCommand ev now commandText cid w = (Inr (), reply msg_oops w)"
  using assms by (simp add: handleCommand_def handleCommand_try_def)

lemma handleCommand_accepted:
  assumes "toLowerCase commandText \<noteq> ''list reminders''"
    and "chrono_parse ev commandText = Inr (res # others)"
    and "reminderSubject_of commandText (text_of res) \<noteq> []"
    and "now \<le> remindAt_for (timeZone ev) (start_date res)"
    and "content (store w) = Some (Array rs)" and "write_succeeds (store w)"
  shows "handleCommand ev now commandText cid w =
     (Inr (),
      w\<lparr>jobs := jobs w @
           [job_of (newReminder_of cid (reminderSubject_of commandText (text_of res))
                      (start_date res) (remindAt_for (timeZone ev) (start_date res)))],
        store := (store w)\<lparr>content := Some (Array (rs @
                     [newReminder_of cid (reminderSubject_of commandText (text_of res))
                        (start_date res) (remindAt_for (timeZone ev) (start_date res))])),
                   faults := tl (faults (store w))\<rparr>,
        replies := replies w @
           [msg_got_it (toLocaleString ev (remindAt_for (timeZone ev) (start_date res)))]\<rparr>)"
  using assms
  by (simp add: handleCommand_def handleCommand_try_def Let_def scheduleNewReminder_def
      loadReminders_array js_push_def saveReminders_ok reply_def job_of_def newReminder_of_def)

lemma not_yields_array: "\<not> yields_array d \<Longrightarrow> \<exists>k. content d = Some (NonArray k)"
  by (simp add: yields_array_def split: option.splits json_text.splits)

lemma listReminders_effect:
  "store (snd (listReminders ev cid w)) = snd (loadReminders (store w)) \<and>
   jobs (snd (listReminders ev cid w)) = jobs w"
proof (cases "yields_array (store w)")
  case True
  then show ?thesis
    by (simp add: listReminders_def loadReminders_case js_filter_def reply_def)
next
  case False
  then obtain k where "content (store w) = Some (NonArray k)"
    using not_yields_array by blast
  then show ?thesis
    by (simp add: listReminders_non_array loadReminders_non_array)
qed

lemma handleCommand_effect:
  "(jobs (snd (handleCommand ev now commandText cid w)) = jobs w \<and>
    (store (snd (handleCommand ev now commandText cid w)) = store w \<or>
     store (snd (handleCommand ev now commandText cid w)) = snd (loadReminders (store w)))) \<or>
   (\<exists>res others r.
      chrono_parse ev commandText = Inr (res # others) \<and>
      r = newReminder_of cid (reminderSubject_of commandText (text_of res)) (start_date res)
            (remindAt_for (timeZone ev) (start_date res)) \<and>
      now \<le> remindAt r \<and>
      jobs (snd (handleCommand ev now commandText cid w)) = jobs w @ [job_of r] \<and>
      (store (snd (handleCommand ev now commandText cid w)) =
         snd (saveReminders (stored (store w) @ [r]) (snd (loadReminders (store w)))) \<or>
       store (snd (handleCommand ev now commandText cid w)) = store w))"
proof (cases "toLowerCase commandText = ''list reminders''")
  case True
  then show ?thesis
    using listReminders_effect [of ev cid w] by (simp add: handleCommand_def)
next
  case nl: False
  show ?thesis
  proof (cases "chrono_parse ev commandText")
    case (Inl e)
    with nl show ?thesis
      by (simp add: handleCommand_def handleCommand_try_def reply_def)
  next
    case (Inr results)
    show ?thesis
    proof (cases results)
      case Nil
      with nl Inr show ?thesis
        by (simp add: handleCommand_def handleCommand_try_def reply_def)
    next
      case (Cons res others)
      let ?subject = "reminderSubject_of commandText (text_of res)"
      let ?fireAt = "remindAt_for (timeZone ev) (start_date res)"
      let ?r = "newReminder_of cid ?subject (start_date res) ?fireAt"
      show ?thesis
      proof (cases "?subject = [] \<or> ?fireAt < now")
        case True
        with nl Inr Cons show ?thesis
          by (auto simp add: handleCommand_def handleCommand_try_def reply_def Let_def)
      next
        case False
        have le: "now \<le> remindAt ?r"
          using False by (simp add: newReminder_of_def)
        show ?thesis
        proof (cases "yields_array (store w)")
          case True
          have "handleCommand ev now commandText cid w =
                  (Inr (), reply (msg_got_it (toLocaleString ev ?fireAt))
                             (w\<lparr>jobs := jobs w @ [job_of ?r],
                                store := snd (saveReminders (stored (store w) @ [?r])
                                               (snd (loadReminders (store w))))\<rparr>))"
            using nl Inr Cons False True
            by (simp add: handleCommand_def handleCommand_try_def Let_def scheduleNewReminder_def
                loadReminders_case js_push_def saveReminders_case job_of_def newReminder_of_def)
          with le show ?thesis
            using Inr Cons by (simp add: reply_def)
        next
          case no_array: False
          then obtain k where "content (store w) = Some (NonArray k)"
            using not_yields_array by blast
          then have "handleCommand ev now commandText cid w =
                  (Inr (), reply msg_oops (w\<lparr>jobs := jobs w @ [job_of ?r], store := store w\<rparr>))"
            using nl Inr Cons False
            by (simp add: handleCommand_def handleCommand_try_def Let_def scheduleNewReminder_def
                loadReminders_non_array js_push_def job_of_def newReminder_of_def)
          with le show ?thesis
            using Inr Cons by (simp add: reply_def)
        qed
      qed
    qed
  qed
qed

lemma handleCommand_new_records:
  assumes in_after: "r \<in> set (stored (store (snd (handleCommand ev now commandText cid w))))"
    and not_before: "r \<notin> set (stored (store w))"
  shows "now \<le> remindAt r"
proof -
  define w' where "w' = snd (handleCommand ev now commandText cid w)"
  define d' where "d' = snd (loadReminders (store w))"
  have sd: "stored d' = stored (store w)"
    by (simp add: d'_def stored_loadReminders)
  from handleCommand_effect [of ev now commandText cid w]
  have "store w' = store w \<or> store w' = d' \<or>
        (\<exists>r0. now \<le> remindAt r0 \<and> store w' = snd (saveReminders (stored (store w) @ [r0]) d'))"
    unfolding w'_def d'_def by blast
  then consider (kept) "stored (store w') = stored (store w)"
    | (added) r0 where "now \<le> remindAt r0"
        and "store w' = snd (saveReminders (stored (store w) @ [r0]) d')"
    using sd by metis
  then show ?thesis
  proof cases
    case kept
    with in_after not_before show ?thesis by (simp add: w'_def)
  next
    case added
    have "set (stored (snd (saveReminders (stored (store w) @ [r0]) d')))
            \<subseteq> set (stored (store w) @ [r0]) \<union> set (stored d')"
      by (rule stored_saveReminders)
    then have "set (stored (store w')) \<subseteq> insert r0 (set (stored (store w)))"
      by (simp add: added(2) sd)
    moreover have "r \<in> set (stored (store w'))"
      using in_after by (simp add: w'_def)
    ultimately have "r = r0" using not_before by blast
    with added(1) show ?thesis by simp
  qed
qed

lemma handleCommand_new_jobs:
  assumes in_after: "j \<in> set (jobs (snd (handleCommand ev now commandText cid w)))"
    and not_before: "j \<notin> set (jobs w)"
  shows "now \<le> jobDate j"
proof -
  define w' where "w' = snd (handleCommand ev now commandText cid w)"
  from handleCommand_effect [of ev now commandText cid w]
  have "jobs w' = jobs w \<or> (\<exists>r0. now \<le> remindAt r0 \<and> jobs w' = jobs w @ [job_of r0])"
    unfolding w'_def by blast
  then consider (kept) "jobs w' = jobs w"
    | (added) r0 where "now \<le> remindAt r0" and "jobs w' = jobs w @ [job_of r0]"
    by blast
  then show ?thesis
  proof cases
    case kept
    with in_after not_before show ?thesis by (simp add: w'_def)
  next
    case added
    have "j \<in> set (jobs w')" using in_after by (simp add: w'_def)
    with added(2) not_before have "j = job_of r0" by simp
    with added(1) show ?thesis by (simp add: job_of_def)
  qed
qed

text \<open>A request that is accepted into a store holding the empty array.\<close>

lemma handleCommand_first_reminder:
  assumes "toLowerCase commandText \<noteq> ''list reminders''"
    and "chrono_parse ev commandText = Inr [\<lparr>text_of = dateText, start_date = parsedDate\<rparr>]"
    and "reminderSubject_of commandText dateText = subject" and "subject \<noteq> []"
    and "remindAt_for (timeZone ev) parsedDate = fireAt" and "now \<le> fireAt"
  shows "handleCommand ev now commandText cid empty_world =
     (Inr (), \<lparr>store = holding [newReminder_of cid subject parsedDate fireAt],
               jobs = [job_of (newReminder_of cid subject parsedDate fireAt)], sent = [],
               replies = [msg_got_it (toLocaleString ev fireAt)]\<rparr>)"
proof -
  have c: "content (store empty_world) = Some (Array [])"
    by (simp add: empty_world_def content_holding)
  have ws: "write_succeeds (store empty_world)"
    by (simp add: empty_world_def write_succeeds_holding)
  have s: "reminderSubject_of commandText
             (text_of \<lparr>text_of = dateText, start_date = parsedDate\<rparr>) \<noteq> []"
    using assms(3,4) by simp
  have f: "now \<le> remindAt_for (timeZone ev)
             (start_date \<lparr>text_of = dateText, start_date = parsedDate\<rparr>)"
    using assms(5,6) by simp
  show ?thesis
    by (simp add: handleCommand_accepted [OF assms(1) assms(2) s f c ws] assms(3) assms(5))
      (simp add: empty_world_def holding_def)
qed

lemma not_list_example: "toLowerCase ''1 March exam fees'' \<noteq> ''list reminders''"
  by (simp add: toLowerCase_def)

lemma subject_example: "reminderSubject_of ''1 March exam fees'' ''1 March'' = ''exam fees''"
  by code_simp

lemma remindAt_example: "remindAt_for ist 1709307000000 = 1709177400000"
  by code_simp

lemma calendar_example:
  "YearFromTime (LocalTime ist 1709177400000) = 2024 \<and>
   MonthFromTime (LocalTime ist 1709177400000) = 1 \<and>
   DateFromTime (LocalTime ist 1709177400000) = 29 \<and>
   YearFromTime (LocalTime ist 1709307000000) = 2024 \<and>
   MonthFromTime (LocalTime ist 1709307000000) = 2 \<and>
   DateFromTime (LocalTime ist 1709307000000) = 1"
  by code_simp

lemma newReminder_example:
  "newReminder_of ''g1'' ''exam fees'' 1709307000000 1709177400000 = fees"
  by (simp add: newReminder_of_def fees_def show_int_fees)

lemma parse_example:
  "chrono_parse ist_env ''1 March exam fees'' =
     Inr [\<lparr>text_of = ''1 March'', start_date = 1709307000000\<rparr>]"
  by (simp add: ist_env_def)

lemma handleCommand_example:
  assumes "now \<le> 1709177400000"
  shows "handleCommand ist_env now ''1 March exam fees'' ''g1'' empty_world =
     (Inr (), \<lparr>store = holding [fees], jobs = [job_of fees], sent = [],
               replies = [msg_got_it ''1709177400000'']\<rparr>)"
proof -
  have tz: "timeZone ist_env = ist" and fmt: "toLocaleString ist_env = show_int"
    by (simp_all add: ist_env_def)
  have f: "remindAt_for (timeZone ist_env) 1709307000000 = 1709177400000"
    by (simp add: tz remindAt_example)
  have ne: "''exam fees'' \<noteq> []"
    by simp
  show ?thesis
    using handleCommand_first_reminder [OF not_list_example parse_example subject_example ne f
        assms, of "''g1''"]
    by (simp add: newReminder_example fmt show_int_fees)
qed

text \<open>
  Claim C2, as the code has it. A request whose reminder time lies before the current
  instant (\<open>remindAt < now\<close>) is answered with the too-soon reply and changes neither
  the store nor the jobs. Whatever the command, every record that \<^verbatim>\<open>handleCommand\<close> adds
  to the store and every job it registers has its time at or after the current instant.
\<close>
theorem handleCommand_rejects_past:
  "(toLowerCase commandText \<noteq> ''list reminders'' \<and>
    chrono_parse ev commandText = Inr (res # others) \<and>
    reminderSubject_of commandText (text_of res) \<noteq> [] \<and>
    remindAt_for (timeZone ev) (start_date res) < now \<longrightarrow>
      handleCommand ev now commandText cid w = (Inr (), reply msg_too_soon w)) \<and>
   (\<forall>r \<in> set (stored (store (snd (handleCommand ev now commandText cid w)))) -
            set (stored (store w)). now \<le> remindAt r) \<and>
   (\<forall>j \<in> set (jobs (snd (handleCommand ev now commandText cid w))) - set (jobs w).
      now \<le> jobDate j)"
  using handleCommand_too_soon [of commandText ev res others now cid w]
    handleCommand_new_records [of _ ev now commandText cid w]
    handleCommand_new_jobs [of _ ev now commandText cid w]
  by blast

theorem handleCommand_rejects_past_witness:
  "handleCommand ist_env 1709177400001 ''1 March exam fees'' ''g1'' empty_world =
     (Inr (), reply msg_too_soon empty_world) \<and>
   stored (store (snd (handleCommand ist_env 1709000000000 ''1 March exam fees'' ''g1'' empty_world)))
     = [fees] \<and>
   1709000000000 \<le> remindAt fees \<and> 1709000000000 \<le> jobDate (job_of fees)"
proof -
  have tz: "timeZone ist_env = ist"
    by (simp add: ist_env_def)
  have e: "stored (store empty_world) = []" "jobs empty_world = []"
    by (simp_all add: empty_world_def stored_holding)
  have a: "handleCommand ist_env 1709000000000 ''1 March exam fees'' ''g1'' empty_world =
     (Inr (), \<lparr>store = holding [fees], jobs = [job_of fees], sent = [],
               replies = [msg_got_it ''1709177400000'']\<rparr>)"
    by (rule handleCommand_example) simp
  have rej: "handleCommand ist_env 1709177400001 ''1 March exam fees'' ''g1'' empty_world =
     (Inr (), reply msg_too_soon empty_world)"
    using handleCommand_rejects_past [of "''1 March exam fees''" ist_env
        "\<lparr>text_of = ''1 March'', start_date = 1709307000000\<rparr>" "[]" 1709177400001 "''g1''"
        empty_world]
    by (simp add: not_list_example parse_example subject_example tz remindAt_example)
  have acc: "stored (store (snd (handleCommand ist_env 1709000000000 ''1 March exam fees'' ''g1''
                 empty_world))) = [fees] \<and>
             1709000000000 \<le> remindAt fees \<and> 1709000000000 \<le> jobDate (job_of fees)"
    using handleCommand_rejects_past [of "''1 March exam fees''" ist_env
        "\<lparr>text_of = ''1 March'', start_date = 1709307000000\<rparr>" "[]" 1709000000000 "''g1''"
        empty_world]
    by (simp add: a e stored_holding)
  from rej acc show ?thesis by simp
qed

text \<open>
  The claim as the specification states it fails at the boundary: a request whose
  reminder time equals the current instant is not strictly in the future, and is
  accepted, stored and scheduled.
\<close>

theorem handleCommand_accepts_now_counterexample:
  "remindAt_for (timeZone ist_env) 1709307000000 = 1709177400000 \<and>
   chrono_parse ist_env ''1 March exam fees'' =
     Inr [\<lparr>text_of = ''1 March'', start_date = 1709307000000\<rparr>] \<and>
   remindAt fees = 1709177400000 \<and>
   handleCommand ist_env 1709177400000 ''1 March exam fees'' ''g1'' empty_world =
     (Inr (), \<lparr>store = holding [fees], jobs = [job_of fees], sent = [],
               replies = [msg_got_it ''1709177400000'']\<rparr>)"
proof -
  have "timeZone ist_env = ist"
    by (simp add: ist_env_def)
  moreover have "handleCommand ist_env 1709177400000 ''1 March exam fees'' ''g1'' empty_world =
     (Inr (), \<lparr>store = holding [fees], jobs = [job_of fees], sent = [],
               replies = [msg_got_it ''1709177400000'']\<rparr>)"
    by (rule handleCommand_example) simp
  ultimately show ?thesis
    by (simp add: remindAt_example parse_example fees_def)
qed

section \<open>The reminder time across zone transitions\<close>

text \<open>
  Five hours behind UTC until 2024-03-10T07:00:00Z and four hours after it: for an event
  at noon of 10 March the reminder is at 09:00 of 9 March, read with the offset in force
  on that day.
\<close>

lemma remindAt_before_transition: "remindAt_for eastern 1710086400000 = 1709992800000"
  by code_simp











end
